theory Spec2Isabelle
  imports Main
begin

section \<open>Gallery lightbox: values, page anchors and page state\<close>

text \<open>
  The lightbox script keeps three module variables (\<open>currentIndex\<close>, \<open>images\<close>,
  \<open>lastFocusedElement\<close>), looks a handful of elements up once when it is loaded, and
  from then on only reacts to events. The model keeps the looked-up elements in a record
  \<open>anchors\<close> (they are \<open>const\<close> in the script) and everything that changes in a
  record \<open>page\<close>: the module variables and the part of the document the script reads
  or writes.
\<close>

type_synonym element = nat

text \<open>
  A JavaScript number as far as the script can produce one: an integer, or \<open>NaN\<close>
  (the remainder by an empty image list). Negative zero is identified with zero: both
  name the array index 0.
\<close>

datatype jsnum = Num int | NaN

datatype error = TypeError

datatype outcome = Returned | Threw error

text \<open>The remainder operator \<open>%\<close>: truncated, the sign of the dividend.\<close>

definition js_rem :: "int \<Rightarrow> int \<Rightarrow> int" where
  "js_rem a b = sgn a * (\<bar>a\<bar> mod \<bar>b\<bar>)"

fun js_add :: "jsnum \<Rightarrow> jsnum \<Rightarrow> jsnum" where
  "js_add (Num a) (Num b) = Num (a + b)"
| "js_add _ _ = NaN"

fun js_sub :: "jsnum \<Rightarrow> jsnum \<Rightarrow> jsnum" where
  "js_sub (Num a) (Num b) = Num (a - b)"
| "js_sub _ _ = NaN"

fun js_mod :: "jsnum \<Rightarrow> jsnum \<Rightarrow> jsnum" where
  "js_mod (Num a) (Num b) = (if b = 0 then NaN else Num (js_rem a b))"
| "js_mod _ _ = NaN"

text \<open>Conversion of a number to the text stored in \<open>textContent\<close>.\<close>

fun digits :: "nat \<Rightarrow> string" where
  "digits n =
     (if n < 10 then [char_of (48 + n)]
      else digits (n div 10) @ [char_of (48 + n mod 10)])"

declare digits.simps [simp del]

fun js_string :: "jsnum \<Rightarrow> string" where
  "js_string (Num i) = (if i < 0 then CHR ''-'' # digits (nat (- i)) else digits (nat i))"
| "js_string NaN = ''NaN''"

text \<open>One element of \<open>images\<close>, as \<open>buildImageArray\<close> makes it.\<close>

record image_entry =
  entry_src :: string
  entry_alt :: string
  entry_index :: nat

text \<open>
  A gallery item of the page: the element itself and the \<open>src\<close> and \<open>alt\<close> of the
  first \<open>img\<close> inside it, \<open>None\<close> when it contains no \<open>img\<close>.
\<close>

record gallery_item =
  item_el :: element
  item_img :: "(string \<times> string) option"

text \<open>
  A descendant of the overlay, with the attributes the focus trap's selector
  \<open>button:not([disabled]), [tabindex]:not([tabindex="-1"])\<close> looks at.
\<close>

record control =
  ctl_el :: element
  ctl_button :: bool
  ctl_disabled :: bool
  ctl_tabindex :: "string option"

text \<open>The constants of the script: the results of the look-ups made when it is loaded.\<close>

record anchors =
  lightbox :: "element option"
  lightboxImage :: "element option"
  lightboxCaption :: "element option"
  lightboxCurrent :: "element option"
  lightboxTotal :: "element option"
  closeBtn :: "element option"
  prevBtn :: "element option"
  nextBtn :: "element option"
  galleryItems :: "gallery_item list"
  prefersReducedMotion :: bool

text \<open>
  The mutable state. The first group are the script's variables (\<open>touchStartX\<close> and
  \<open>touchEndX\<close> are the locals of \<open>init\<close> that its touch listeners close over;
  \<open>wired\<close> says that \<open>init\<close> has registered its listeners). The second group is the
  document: the \<open>is-open\<close> class and \<open>aria-hidden\<close> attribute of the overlay, the
  body's \<open>overflow\<close> style, the focused element (\<open>document.activeElement\<close>: an
  element, the body when nothing else has the focus, or \<open>null\<close>), the elements currently
  in the document, the elements the browser is able to give the focus to (\<open>takesFocus\<close>:
  those that are focusable, rendered and not disabled; a disabled button, a hidden
  element, a plain \<open>div\<close> or the body are not among them), the overlay's descendants,
  the properties of the image, caption and counter elements, and the number of pending
  100 ms timers set by \<open>openLightbox\<close>.
\<close>

record page =
  currentIndex :: jsnum
  images :: "image_entry list"
  lastFocusedElement :: "element option"
  touchStartX :: int
  touchEndX :: int
  wired :: bool
  isOpenClass :: bool
  ariaHidden :: "string option"
  bodyOverflow :: string
  activeElement :: "element option"
  inDocument :: "element list"
  takesFocus :: "element list"
  overlayControls :: "control list"
  imageOpacity :: string
  imageSrc :: string
  imageAlt :: string
  imageOnload :: bool
  captionText :: string
  currentText :: string
  totalText :: string
  focusTimers :: nat

section \<open>Document primitives\<close>

text \<open>
  \<open>element.focus()\<close> as the browser performs it. The script never tests whether the
  element it calls \<open>focus()\<close> on can receive the focus; the browser does: the focus moves
  only to an element that is in the document and is able to take the focus. On any other
  element (removed from the document, disabled, hidden, not focusable at all) the call
  returns without effect and without an exception.
\<close>

definition can_take_focus :: "page \<Rightarrow> element \<Rightarrow> bool" where
  "can_take_focus s e \<longleftrightarrow> e \<in> set (inDocument s) \<and> e \<in> set (takesFocus s)"

definition focus :: "element \<Rightarrow> page \<Rightarrow> page" where
  "focus e s = (if can_take_focus s e then s\<lparr>activeElement := Some e\<rparr> else s)"

text \<open>
  \<open>images[currentIndex]\<close>: the entry, or \<open>undefined\<close> (\<open>None\<close>) for every index
  that is not an own property of the array.
\<close>

fun image_at :: "image_entry list \<Rightarrow> jsnum \<Rightarrow> image_entry option" where
  "image_at xs (Num i) =
     (if 0 \<le> i \<and> i < int (length xs) then Some (xs ! nat i) else None)"
| "image_at xs NaN = None"

definition focusable :: "control \<Rightarrow> bool" where
  "focusable c \<longleftrightarrow>
     (ctl_button c \<and> \<not> ctl_disabled c) \<or>
     (ctl_tabindex c \<noteq> None \<and> ctl_tabindex c \<noteq> Some ''-1'')"

section \<open>The functions of the script\<close>

fun build_entries :: "nat \<Rightarrow> gallery_item list \<Rightarrow> image_entry list option" where
  "build_entries k [] = Some []"
| "build_entries k (item # items) =
     (case item_img item of
        None \<Rightarrow> None
      | Some (s, a) \<Rightarrow>
          (case build_entries (Suc k) items of
             None \<Rightarrow> None
           | Some es \<Rightarrow> Some (\<lparr>entry_src = s, entry_alt = a, entry_index = k\<rparr> # es)))"

text \<open>
  \<open>buildImageArray\<close>: reading \<open>img.src\<close> of an item without an image throws, before
  \<open>images\<close> is assigned.
\<close>

definition buildImageArray :: "anchors \<Rightarrow> page \<Rightarrow> outcome \<times> page" where
  "buildImageArray A s =
     (case build_entries 0 (galleryItems A) of
        None \<Rightarrow> (Threw TypeError, s)
      | Some es \<Rightarrow>
          (let s1 = s\<lparr>images := es\<rparr>
           in (Returned,
               if lightboxTotal A \<noteq> None
               then s1\<lparr>totalText := js_string (Num (int (length es)))\<rparr>
               else s1)))"

definition updateLightboxImage :: "anchors \<Rightarrow> page \<Rightarrow> outcome \<times> page" where
  "updateLightboxImage A s =
     (case image_at (images s) (currentIndex s) of
        None \<Rightarrow> (Returned, s)
      | Some img \<Rightarrow>
          (case lightboxImage A of
             None \<Rightarrow> (Threw TypeError, s)
           | Some _ \<Rightarrow>
               (let s1 = s\<lparr>imageOpacity := (if prefersReducedMotion A then ''1'' else ''0''),
                            imageSrc := entry_src img,
                            imageAlt := entry_alt img\<rparr>;
                    s2 = (if lightboxCaption A \<noteq> None
                          then s1\<lparr>captionText := entry_alt img\<rparr> else s1);
                    s3 = (if lightboxCurrent A \<noteq> None
                          then s2\<lparr>currentText := js_string (js_add (currentIndex s) (Num 1))\<rparr>
                          else s2)
                in (Returned, s3\<lparr>imageOnload := True\<rparr>))))"

definition openLightbox :: "anchors \<Rightarrow> int \<Rightarrow> page \<Rightarrow> outcome \<times> page" where
  "openLightbox A index s =
     (if lightbox A = None \<or> images s = [] then (Returned, s)
      else
        (let s1 = s\<lparr>currentIndex := Num index, lastFocusedElement := activeElement s\<rparr>
         in case updateLightboxImage A s1 of
              (Threw e, s2) \<Rightarrow> (Threw e, s2)
            | (Returned, s2) \<Rightarrow>
                (Returned, s2\<lparr>isOpenClass := True,
                               ariaHidden := Some ''false'',
                               bodyOverflow := ''hidden'',
                               focusTimers := Suc (focusTimers s2)\<rparr>)))"

definition closeLightbox :: "anchors \<Rightarrow> page \<Rightarrow> outcome \<times> page" where
  "closeLightbox A s =
     (if lightbox A = None then (Returned, s)
      else
        (let s1 = s\<lparr>isOpenClass := False, ariaHidden := Some ''true'', bodyOverflow := ''''\<rparr>
         in (Returned,
             case lastFocusedElement s1 of
               None \<Rightarrow> s1
             | Some e \<Rightarrow> focus e s1)))"

definition nextImage :: "anchors \<Rightarrow> page \<Rightarrow> outcome \<times> page" where
  "nextImage A s =
     updateLightboxImage A
       (s\<lparr>currentIndex :=
            js_mod (js_add (currentIndex s) (Num 1)) (Num (int (length (images s))))\<rparr>)"

definition prevImage :: "anchors \<Rightarrow> page \<Rightarrow> outcome \<times> page" where
  "prevImage A s =
     updateLightboxImage A
       (s\<lparr>currentIndex :=
            js_mod (js_add (js_sub (currentIndex s) (Num 1)) (Num (int (length (images s)))))
                   (Num (int (length (images s))))\<rparr>)"

text \<open>
  A keyboard event as the handlers read it. The handlers that may call
  \<open>e.preventDefault()\<close> return, besides the outcome and the page, whether they did.
\<close>

record key_event =
  key :: string
  shiftKey :: bool

text \<open>
  \<open>document.activeElement === firstElement\<close>: the left side is an element or
  \<open>null\<close>, the right side an element or \<open>undefined\<close> (an empty node list), so the
  comparison holds only between two equal elements.
\<close>

fun same_element :: "element option \<Rightarrow> element option \<Rightarrow> bool" where
  "same_element (Some a) (Some b) = (a = b)"
| "same_element _ _ = False"

definition trapFocus :: "anchors \<Rightarrow> key_event \<Rightarrow> page \<Rightarrow> outcome \<times> bool \<times> page" where
  "trapFocus A e s =
     (case lightbox A of
        None \<Rightarrow> (Threw TypeError, False, s)
      | Some _ \<Rightarrow>
          (let focusableElements = map ctl_el (filter focusable (overlayControls s));
               firstElement = (case focusableElements of [] \<Rightarrow> None | x # _ \<Rightarrow> Some x);
               lastElement = (if focusableElements = [] then None
                              else Some (last focusableElements))
           in if shiftKey e then
                (if same_element (activeElement s) firstElement then
                   (case lastElement of
                      None \<Rightarrow> (Threw TypeError, True, s)
                    | Some l \<Rightarrow> (Returned, True, focus l s))
                 else (Returned, False, s))
              else
                (if same_element (activeElement s) lastElement then
                   (case firstElement of
                      None \<Rightarrow> (Threw TypeError, True, s)
                    | Some f \<Rightarrow> (Returned, True, focus f s))
                 else (Returned, False, s))))"

definition handleKeydown :: "anchors \<Rightarrow> key_event \<Rightarrow> page \<Rightarrow> outcome \<times> bool \<times> page" where
  "handleKeydown A e s =
     (case lightbox A of
        None \<Rightarrow> (Threw TypeError, False, s)
      | Some _ \<Rightarrow>
          if \<not> isOpenClass s then (Returned, False, s)
          else if key e = ''Escape'' then
            (fst (closeLightbox A s), False, snd (closeLightbox A s))
          else if key e = ''ArrowRight'' then
            (fst (nextImage A s), False, snd (nextImage A s))
          else if key e = ''ArrowLeft'' then
            (fst (prevImage A s), False, snd (prevImage A s))
          else if key e = ''Tab'' then trapFocus A e s
          else (Returned, False, s))"

text \<open>
  The touch listeners of \<open>init\<close>. A touch carries both screen coordinates; the listeners
  read \<open>e.changedTouches[0].screenX\<close>, which throws on an empty touch list.
\<close>

record touch =
  screenX :: int
  screenY :: int

definition handleSwipe :: "anchors \<Rightarrow> page \<Rightarrow> outcome \<times> page" where
  "handleSwipe A s =
     (let swipeThreshold = 50;
          diff = touchStartX s - touchEndX s
      in if \<bar>diff\<bar> > swipeThreshold then
           (if diff > 0 then nextImage A s else prevImage A s)
         else (Returned, s))"

definition touchstart :: "touch list \<Rightarrow> page \<Rightarrow> outcome \<times> page" where
  "touchstart changedTouches s =
     (case changedTouches of
        [] \<Rightarrow> (Threw TypeError, s)
      | t # _ \<Rightarrow> (Returned, s\<lparr>touchStartX := screenX t\<rparr>))"

definition touchend :: "anchors \<Rightarrow> touch list \<Rightarrow> page \<Rightarrow> outcome \<times> page" where
  "touchend A changedTouches s =
     (case changedTouches of
        [] \<Rightarrow> (Threw TypeError, s)
      | t # _ \<Rightarrow> handleSwipe A (s\<lparr>touchEndX := screenX t\<rparr>))"

text \<open>
  \<open>init\<close>: nothing is registered without the overlay or without gallery items, nor when
  \<open>buildImageArray\<close> throws.
\<close>

definition init :: "anchors \<Rightarrow> page \<Rightarrow> outcome \<times> page" where
  "init A s =
     (if lightbox A = None \<or> galleryItems A = [] then (Returned, s)
      else
        (case buildImageArray A s of
           (Threw e, s1) \<Rightarrow> (Threw e, s1)
         | (Returned, s1) \<Rightarrow>
             (Returned, s1\<lparr>wired := True, touchStartX := 0, touchEndX := 0\<rparr>)))"

text \<open>
  The events the registered listeners react to, and the listener each one reaches:
  a click or a key press on the gallery item of a given position, a click on one of the
  three controls, a click inside the overlay with its target, a key press anywhere in the
  document, the two touch events on the overlay, the 100 ms timer of \<open>openLightbox\<close>
  and the \<open>load\<close> event of the image. A gallery item's key listener also cancels the
  default action of Enter and Space, which changes nothing in the page modelled here.
\<close>

datatype event =
  ItemClick nat
| ItemKeydown nat key_event
| CloseClick
| PrevClick
| NextClick
| OverlayClick element
| Keydown key_event
| TouchStart "touch list"
| TouchEnd "touch list"
| FocusTimer
| ImageLoad

fun dispatch :: "anchors \<Rightarrow> event \<Rightarrow> page \<Rightarrow> outcome \<times> page" where
  "dispatch A (ItemClick i) s =
     (if wired s \<and> i < length (galleryItems A) then openLightbox A (int i) s
      else (Returned, s))"
| "dispatch A (ItemKeydown i e) s =
     (if wired s \<and> i < length (galleryItems A) \<and> (key e = ''Enter'' \<or> key e = '' '')
      then openLightbox A (int i) s
      else (Returned, s))"
| "dispatch A CloseClick s =
     (if wired s \<and> closeBtn A \<noteq> None then closeLightbox A s else (Returned, s))"
| "dispatch A PrevClick s =
     (if wired s \<and> prevBtn A \<noteq> None then prevImage A s else (Returned, s))"
| "dispatch A NextClick s =
     (if wired s \<and> nextBtn A \<noteq> None then nextImage A s else (Returned, s))"
| "dispatch A (OverlayClick target) s =
     (if wired s \<and> Some target = lightbox A then closeLightbox A s else (Returned, s))"
| "dispatch A (Keydown e) s =
     (if wired s then (fst (handleKeydown A e s), snd (snd (handleKeydown A e s)))
      else (Returned, s))"
| "dispatch A (TouchStart ts) s =
     (if wired s then touchstart ts s else (Returned, s))"
| "dispatch A (TouchEnd ts) s =
     (if wired s then touchend A ts s else (Returned, s))"
| "dispatch A FocusTimer s =
     (if focusTimers s = 0 then (Returned, s)
      else
        (let s1 = s\<lparr>focusTimers := focusTimers s - 1\<rparr>
         in (Returned, case closeBtn A of None \<Rightarrow> s1 | Some b \<Rightarrow> focus b s1)))"
| "dispatch A ImageLoad s =
     (if imageOnload s then (Returned, s\<lparr>imageOpacity := ''1''\<rparr>) else (Returned, s))"

text \<open>The two directions of navigation, and a run of navigation steps.\<close>

datatype direction = Next | Previous

fun navigate :: "anchors \<Rightarrow> direction \<Rightarrow> page \<Rightarrow> outcome \<times> page" where
  "navigate A Next s = nextImage A s"
| "navigate A Previous s = prevImage A s"

fun navigate_all :: "anchors \<Rightarrow> direction list \<Rightarrow> page \<Rightarrow> page" where
  "navigate_all A [] s = s"
| "navigate_all A (d # ds) s = navigate_all A ds (snd (navigate A d s))"

section \<open>Example pages\<close>

text \<open>
  A gallery page with three photographs and the complete overlay markup, before the
  script has run (\<open>fresh_page\<close>) and after \<open>init\<close> (\<open>demo_page\<close>); the same page
  with a single photograph (\<open>solo_anchors\<close>, \<open>solo_page\<close>); and the three-photograph
  page whose markup lacks the \<open>lightbox-image\<close> element (\<open>no_image_anchors\<close>).
  Element 11 is the second gallery item and has the focus; element 0 is the body.
\<close>

definition demo_anchors :: anchors where
  "demo_anchors =
     \<lparr>lightbox = Some 1, lightboxImage = Some 2, lightboxCaption = Some 3,
      lightboxCurrent = Some 4, lightboxTotal = Some 5, closeBtn = Some 6,
      prevBtn = Some 7, nextBtn = Some 8,
      galleryItems =
        [\<lparr>item_el = 10, item_img = Some (''a.jpg'', ''Arch'')\<rparr>,
         \<lparr>item_el = 11, item_img = Some (''b.jpg'', ''Beach'')\<rparr>,
         \<lparr>item_el = 12, item_img = Some (''c.jpg'', ''Cake'')\<rparr>],
      prefersReducedMotion = False\<rparr>"

definition demo_controls :: "control list" where
  "demo_controls =
     [\<lparr>ctl_el = 6, ctl_button = True, ctl_disabled = False, ctl_tabindex = None\<rparr>,
      \<lparr>ctl_el = 7, ctl_button = True, ctl_disabled = False, ctl_tabindex = None\<rparr>,
      \<lparr>ctl_el = 2, ctl_button = False, ctl_disabled = False, ctl_tabindex = None\<rparr>,
      \<lparr>ctl_el = 8, ctl_button = True, ctl_disabled = False, ctl_tabindex = None\<rparr>]"

definition fresh_page :: page where
  "fresh_page =
     \<lparr>currentIndex = Num 0, images = [], lastFocusedElement = None,
      touchStartX = 0, touchEndX = 0, wired = False,
      isOpenClass = False, ariaHidden = Some ''true'', bodyOverflow = [],
      activeElement = Some 11,
      inDocument = [0, 1, 2, 3, 4, 5, 6, 7, 8, 10, 11, 12],
      takesFocus = [6, 7, 8, 10, 11, 12],
      overlayControls = demo_controls,
      imageOpacity = ''1'', imageSrc = [], imageAlt = [], imageOnload = False,
      captionText = [], currentText = ''1'', totalText = ''0'', focusTimers = 0\<rparr>"

definition demo_page :: page where
  "demo_page =
     fresh_page
       \<lparr>images :=
          [\<lparr>entry_src = ''a.jpg'', entry_alt = ''Arch'', entry_index = 0\<rparr>,
           \<lparr>entry_src = ''b.jpg'', entry_alt = ''Beach'', entry_index = 1\<rparr>,
           \<lparr>entry_src = ''c.jpg'', entry_alt = ''Cake'', entry_index = 2\<rparr>],
        wired := True, totalText := ''3''\<rparr>"

definition solo_anchors :: anchors where
  "solo_anchors =
     demo_anchors\<lparr>galleryItems := [\<lparr>item_el = 10, item_img = Some (''a.jpg'', ''Arch'')\<rparr>]\<rparr>"

definition solo_page :: page where
  "solo_page =
     fresh_page
       \<lparr>images := [\<lparr>entry_src = ''a.jpg'', entry_alt = ''Arch'', entry_index = 0\<rparr>],
        wired := True, totalText := ''1''\<rparr>"

definition no_image_anchors :: anchors where
  "no_image_anchors = demo_anchors\<lparr>lightboxImage := None\<rparr>"

text \<open>
  Two variants of the open overlay. In \<open>link_page\<close> the overlay ends with a link
  (element 9): the browser can focus it, the selector of the focus trap does not match
  it, and it has the focus. In \<open>disabled_page\<close> the overlay ends with
  \<open><button disabled tabindex="0">\<close> (element 9): the selector matches it through its
  \<open>tabindex\<close>, the browser cannot focus it, and the close button has the focus.
\<close>

definition link_control :: control where
  "link_control =
     \<lparr>ctl_el = 9, ctl_button = False, ctl_disabled = False, ctl_tabindex = None\<rparr>"

definition link_page :: page where
  "link_page =
     demo_page
       \<lparr>isOpenClass := True, activeElement := Some 9,
        inDocument := [0, 1, 2, 3, 4, 5, 6, 7, 8, 9, 10, 11, 12],
        takesFocus := [6, 7, 8, 9, 10, 11, 12],
        overlayControls := demo_controls @ [link_control]\<rparr>"

definition disabled_control :: control where
  "disabled_control =
     \<lparr>ctl_el = 9, ctl_button = True, ctl_disabled = True, ctl_tabindex = Some ''0''\<rparr>"

definition disabled_page :: page where
  "disabled_page =
     demo_page
       \<lparr>isOpenClass := True, activeElement := Some 6,
        inDocument := [0, 1, 2, 3, 4, 5, 6, 7, 8, 9, 10, 11, 12],
        overlayControls := demo_controls @ [disabled_control]\<rparr>"

section \<open>Basic facts\<close>

text \<open>The example pages are what \<open>init\<close> makes of the fresh page.\<close>

lemma init_demo: "init demo_anchors fresh_page = (Returned, demo_page)"
  by code_simp

lemma init_solo: "init solo_anchors fresh_page = (Returned, solo_page)"
  by code_simp

lemma init_no_image: "init no_image_anchors fresh_page = (Returned, demo_page)"
  by code_simp

text \<open>On a dividend that is not negative, \<open>%\<close> is the usual remainder.\<close>

lemma js_rem_nonneg: "0 \<le> a \<Longrightarrow> js_rem a b = a mod \<bar>b\<bar>"
  by (cases "a = 0") (simp_all add: js_rem_def)

lemma js_rem_prev_zero:
  assumes "0 < n"
  shows "js_rem (0 - 1 + n) n = n - 1"
proof (cases "n = 1")
  case True
  then show ?thesis by (simp add: js_rem_def)
next
  case False
  with assms have m: "(n - 1) mod n = n - 1"
    by (intro mod_pos_pos_trivial) simp_all
  from assms False have "sgn (n - 1) = 1" "\<bar>n - 1\<bar> = n - 1" "\<bar>n\<bar> = n"
    by simp_all
  then have "js_rem (n - 1) n = (n - 1) mod n"
    unfolding js_rem_def by (simp only: mult_1)
  with m show ?thesis by simp
qed

text \<open>What rendering leaves alone, and when it returns.\<close>

lemma updateLightboxImage_currentIndex [simp]:
  "currentIndex (snd (updateLightboxImage A s)) = currentIndex s"
  by (simp add: updateLightboxImage_def Let_def split: option.splits)

lemma updateLightboxImage_images [simp]:
  "images (snd (updateLightboxImage A s)) = images s"
  by (simp add: updateLightboxImage_def Let_def split: option.splits)

lemma updateLightboxImage_focus_fields [simp]:
  "activeElement (snd (updateLightboxImage A s)) = activeElement s"
  "lastFocusedElement (snd (updateLightboxImage A s)) = lastFocusedElement s"
  "focusTimers (snd (updateLightboxImage A s)) = focusTimers s"
  by (simp_all add: updateLightboxImage_def Let_def split: option.splits)

lemma updateLightboxImage_returns:
  "lightboxImage A \<noteq> None \<Longrightarrow> fst (updateLightboxImage A s) = Returned"
  by (auto simp add: updateLightboxImage_def Let_def split: option.splits)

lemma updateLightboxImage_frame:
  "updateLightboxImage A (s\<lparr>isOpenClass := a, ariaHidden := b, bodyOverflow := c,
                             focusTimers := d\<rparr>)
   = (fst (updateLightboxImage A s),
      (snd (updateLightboxImage A s))\<lparr>isOpenClass := a, ariaHidden := b, bodyOverflow := c,
                                       focusTimers := d\<rparr>)"
  by (simp add: updateLightboxImage_def Let_def split: option.splits)

lemma updateLightboxImage_idem:
  "updateLightboxImage A (snd (updateLightboxImage A s)) = updateLightboxImage A s"
  by (auto simp add: updateLightboxImage_def Let_def split: option.splits)

lemma page_index_focus_same:
  "currentIndex t = c \<Longrightarrow> lastFocusedElement t = f \<Longrightarrow>
   t\<lparr>currentIndex := c, lastFocusedElement := f\<rparr> = t"
  by (cases t) simp

text \<open>Navigation keeps the image list, returns when the image element exists, and
  takes an index that is in range to an index that is in range.\<close>

lemma navigate_images [simp]: "images (snd (navigate A d s)) = images s"
  by (cases d) (simp_all add: nextImage_def prevImage_def)

lemma navigate_all_images [simp]: "images (navigate_all A ds s) = images s"
  by (induction ds arbitrary: s) simp_all

lemma navigate_returns:
  "lightboxImage A \<noteq> None \<Longrightarrow> fst (navigate A d s) = Returned"
  by (cases d) (simp_all add: nextImage_def prevImage_def updateLightboxImage_returns)

lemma navigate_in_range:
  assumes "currentIndex s = Num i" "0 \<le> i" "i < int (length (images s))"
  shows "\<exists>j. currentIndex (snd (navigate A d s)) = Num j \<and> 0 \<le> j
             \<and> j < int (length (images s))"
proof (cases d)
  case Next
  with assms show ?thesis by (auto simp add: nextImage_def js_rem_nonneg)
next
  case Previous
  with assms show ?thesis by (auto simp add: prevImage_def js_rem_nonneg)
qed

lemma navigate_all_in_range:
  assumes "currentIndex s = Num i" "0 \<le> i" "i < int (length (images s))"
  shows "\<exists>j. currentIndex (navigate_all A ds s) = Num j \<and> 0 \<le> j
             \<and> j < int (length (images s))"
  using assms
proof (induction ds arbitrary: s i)
  case Nil
  then show ?case by simp
next
  case (Cons d ds)
  from navigate_in_range [OF Cons.prems, of A d]
  obtain j where j: "currentIndex (snd (navigate A d s)) = Num j" "0 \<le> j"
    "j < int (length (images s))" by blast
  from Cons.IH [of "snd (navigate A d s)" j] j show ?case by simp
qed

lemma navigate_single_image:
  "length (images s) = 1 \<Longrightarrow> currentIndex s = Num i \<Longrightarrow>
   currentIndex (snd (navigate A d s)) = Num 0"
  by (cases d) (simp_all add: nextImage_def prevImage_def js_rem_def)

text \<open>Opening with the overlay, the image element and a non-empty image list.\<close>

lemma openLightbox_returned:
  assumes "lightbox A \<noteq> None" "lightboxImage A \<noteq> None" "images s \<noteq> []"
  shows "openLightbox A k s
         = (Returned,
            (snd (updateLightboxImage A
                    (s\<lparr>currentIndex := Num k, lastFocusedElement := activeElement s\<rparr>)))
              \<lparr>isOpenClass := True, ariaHidden := Some ''false'', bodyOverflow := ''hidden'',
               focusTimers := Suc (focusTimers s)\<rparr>)"
proof -
  let ?s1 = "s\<lparr>currentIndex := Num k, lastFocusedElement := activeElement s\<rparr>"
  obtain u where u: "updateLightboxImage A ?s1 = (Returned, u)"
    using updateLightboxImage_returns [OF assms(2), of ?s1]
    by (cases "updateLightboxImage A ?s1") simp
  have "focusTimers u = focusTimers s"
    using updateLightboxImage_focus_fields(3) [of A ?s1] u by simp
  with assms u show ?thesis by (auto simp add: openLightbox_def)
qed

section \<open>Navigation\<close>

text \<open>
  Claim C1. For every non-empty image list and every starting \<open>currentIndex\<close> in
  \<open>[0, length)\<close>, after any finite sequence of next and previous steps \<open>currentIndex\<close>
  is again a number in \<open>[0, length)\<close>: never negative, never \<open>length\<close> or more. (The index
  is assigned before the image is rendered, so this holds of every step whether or not
  rendering returns.)
\<close>

theorem navigate_all_index_in_range:
  assumes "currentIndex s = Num i" "0 \<le> i" "i < int (length (images s))"
  shows "\<exists>j. currentIndex (navigate_all A ds s) = Num j \<and> 0 \<le> j
             \<and> j < int (length (images s))"
  using assms by (rule navigate_all_in_range)

theorem navigate_all_index_in_range_witness:
  "currentIndex demo_page = Num 0 \<and> (0::int) \<le> 0 \<and> 0 < int (length (images demo_page))
   \<and> (\<exists>j. currentIndex (navigate_all demo_anchors [Previous, Previous, Next, Next, Next]
              demo_page) = Num j \<and> 0 \<le> j \<and> j < int (length (images demo_page)))"
proof -
  have a: "currentIndex demo_page = Num 0" by code_simp
  have b: "(0::int) \<le> 0" by simp
  have c: "0 < int (length (images demo_page))" by code_simp
  from navigate_all_index_in_range [OF a b c] a b c show ?thesis by blast
qed

text \<open>
  Claim C2. Navigation wraps at both ends: \<open>nextImage\<close> at index \<open>length - 1\<close> gives
  index 0, \<open>prevImage\<close> at index 0 gives index \<open>length - 1\<close>. With a single image
  every step, next or previous, gives index 0, and so does every run of steps; each step
  returns normally on a page that has the image element.
\<close>

theorem navigation_wraps:
  assumes "images s \<noteq> []"
  shows "(currentIndex s = Num (int (length (images s)) - 1) \<longrightarrow>
            currentIndex (snd (nextImage A s)) = Num 0)
       \<and> (currentIndex s = Num 0 \<longrightarrow>
            currentIndex (snd (prevImage A s)) = Num (int (length (images s)) - 1))
       \<and> (length (images s) = 1 \<and> currentIndex s = Num i \<longrightarrow>
            currentIndex (snd (navigate A d s)) = Num 0
            \<and> currentIndex (navigate_all A (d # ds) s) = Num 0
            \<and> (lightboxImage A \<noteq> None \<longrightarrow>
                 fst (navigate A d (navigate_all A ds s)) = Returned))"
proof (intro conjI impI)
  assume "currentIndex s = Num (int (length (images s)) - 1)"
  with assms show "currentIndex (snd (nextImage A s)) = Num 0"
    by (simp add: nextImage_def js_rem_nonneg)
next
  assume "currentIndex s = Num 0"
  with assms show "currentIndex (snd (prevImage A s)) = Num (int (length (images s)) - 1)"
    using js_rem_prev_zero [of "int (length (images s))"] by (simp add: prevImage_def)
next
  assume one: "length (images s) = 1 \<and> currentIndex s = Num i"
  then show first: "currentIndex (snd (navigate A d s)) = Num 0"
    by (simp add: navigate_single_image)
  from one have "(0::int) \<le> 0" "0 < int (length (images (snd (navigate A d s))))"
    by simp_all
  from navigate_all_in_range [OF first this, of A ds] one
  show "currentIndex (navigate_all A (d # ds) s) = Num 0" by auto
next
  assume "lightboxImage A \<noteq> None"
  then show "fst (navigate A d (navigate_all A ds s)) = Returned"
    by (rule navigate_returns)
qed

theorem navigation_wraps_witness:
  "images demo_page \<noteq> []
   \<and> currentIndex (demo_page\<lparr>currentIndex := Num 2\<rparr>) = Num (int (length (images demo_page)) - 1)
   \<and> currentIndex (snd (nextImage demo_anchors (demo_page\<lparr>currentIndex := Num 2\<rparr>))) = Num 0
   \<and> currentIndex demo_page = Num 0
   \<and> currentIndex (snd (prevImage demo_anchors demo_page)) = Num 2
   \<and> images solo_page \<noteq> [] \<and> length (images solo_page) = 1 \<and> currentIndex solo_page = Num 0
   \<and> lightboxImage solo_anchors \<noteq> None
   \<and> currentIndex (snd (navigate solo_anchors Previous solo_page)) = Num 0
   \<and> currentIndex (navigate_all solo_anchors [Previous, Next, Previous] solo_page) = Num 0
   \<and> fst (navigate solo_anchors Previous
             (navigate_all solo_anchors [Next, Previous] solo_page)) = Returned"
proof -
  have a: "images (demo_page\<lparr>currentIndex := Num 2\<rparr>) \<noteq> []" by code_simp
  have a': "images demo_page \<noteq> []" by code_simp
  have b: "currentIndex (demo_page\<lparr>currentIndex := Num 2\<rparr>)
           = Num (int (length (images (demo_page\<lparr>currentIndex := Num 2\<rparr>))) - 1)"
    by code_simp
  have c: "currentIndex demo_page = Num 0" by code_simp
  have l: "int (length (images demo_page)) - 1 = 2" by code_simp
  have d: "images solo_page \<noteq> []" by code_simp
  have e: "length (images solo_page) = 1 \<and> currentIndex solo_page = Num 0" by code_simp
  have f: "lightboxImage solo_anchors \<noteq> None" by code_simp
  from navigation_wraps [OF a, of demo_anchors] b
  have 1: "currentIndex (snd (nextImage demo_anchors (demo_page\<lparr>currentIndex := Num 2\<rparr>))) = Num 0"
    by blast
  from navigation_wraps [OF a', of demo_anchors] c l
  have 2: "currentIndex (snd (prevImage demo_anchors demo_page)) = Num 2"
    by simp
  from navigation_wraps [OF d, where A = solo_anchors and i = 0 and d = Previous
         and ds = "[Next, Previous]"] e f
  have 3: "currentIndex (snd (navigate solo_anchors Previous solo_page)) = Num 0
      \<and> currentIndex (navigate_all solo_anchors [Previous, Next, Previous] solo_page) = Num 0
      \<and> fst (navigate solo_anchors Previous
             (navigate_all solo_anchors [Next, Previous] solo_page)) = Returned"
    by blast
  from a' b c d e f 1 2 3 l show ?thesis by simp
qed

section \<open>Opening\<close>

text \<open>
  Claim C3. With no gallery entries the image list is empty, and then \<open>openLightbox\<close>
  at any index returns the page as it was: nothing changes and the overlay stays closed.
  With an empty gallery collection \<open>init\<close> itself changes nothing and registers no
  listener, so a click or a key press on a gallery position changes nothing either.
\<close>

theorem open_empty_gallery_noop:
  "(images s = [] \<longrightarrow> openLightbox A index s = (Returned, s))
   \<and> (galleryItems A = [] \<and> images s = [] \<longrightarrow>
        init A s = (Returned, s)
        \<and> dispatch A (ItemClick k) (snd (init A s)) = (Returned, snd (init A s))
        \<and> dispatch A (ItemKeydown k e) (snd (init A s)) = (Returned, snd (init A s)))"
  by (simp add: openLightbox_def init_def)

theorem open_empty_gallery_noop_witness:
  "images fresh_page = [] \<and> galleryItems (demo_anchors\<lparr>galleryItems := []\<rparr>) = []
   \<and> \<not> isOpenClass fresh_page
   \<and> openLightbox (demo_anchors\<lparr>galleryItems := []\<rparr>) 0 fresh_page = (Returned, fresh_page)
   \<and> init (demo_anchors\<lparr>galleryItems := []\<rparr>) fresh_page = (Returned, fresh_page)"
proof -
  have a: "images fresh_page = []" by code_simp
  have b: "galleryItems (demo_anchors\<lparr>galleryItems := []\<rparr>) = []" by simp
  have c: "\<not> isOpenClass fresh_page" by code_simp
  from open_empty_gallery_noop [of fresh_page "demo_anchors\<lparr>galleryItems := []\<rparr>" 0] a b c
  show ?thesis by blast
qed

text \<open>
  Claim C10. With the overlay present and a non-empty image list, \<open>openLightbox\<close> at an
  index outside \<open>[0, length)\<close> still opens: \<open>currentIndex\<close> becomes that index, the
  focused element is captured, the overlay is marked open and the scroll lock is set.
  The look-up of the entry yields nothing, so rendering returns before touching the image,
  caption or counter, and no entry of the list is read.
\<close>

theorem open_out_of_range:
  assumes "lightbox A \<noteq> None" "images s \<noteq> []"
    "index < 0 \<or> int (length (images s)) \<le> index"
  shows "image_at (images s) (Num index) = None
       \<and> updateLightboxImage A (s\<lparr>currentIndex := Num index,
                                   lastFocusedElement := activeElement s\<rparr>)
           = (Returned, s\<lparr>currentIndex := Num index, lastFocusedElement := activeElement s\<rparr>)
       \<and> openLightbox A index s
           = (Returned, s\<lparr>currentIndex := Num index,
                          lastFocusedElement := activeElement s,
                          isOpenClass := True,
                          ariaHidden := Some ''false'',
                          bodyOverflow := ''hidden'',
                          focusTimers := Suc (focusTimers s)\<rparr>)"
  using assms by (auto simp add: openLightbox_def updateLightboxImage_def)

theorem open_out_of_range_witness:
  "lightbox demo_anchors \<noteq> None \<and> images demo_page \<noteq> []
   \<and> ((7::int) < 0 \<or> int (length (images demo_page)) \<le> 7)
   \<and> isOpenClass (snd (openLightbox demo_anchors 7 demo_page))
   \<and> currentIndex (snd (openLightbox demo_anchors 7 demo_page)) = Num 7
   \<and> imageSrc (snd (openLightbox demo_anchors 7 demo_page)) = imageSrc demo_page"
proof -
  have a: "lightbox demo_anchors \<noteq> None" by code_simp
  have b: "images demo_page \<noteq> []" by code_simp
  have c: "(7::int) < 0 \<or> int (length (images demo_page)) \<le> 7" by code_simp
  from open_out_of_range [OF a b c] a b c show ?thesis by simp
qed

section \<open>Closing\<close>

text \<open>
  Claim C4, as stated, fails in its last part: \<open>closeLightbox\<close> never clears the captured
  element. After opening from the second gallery item (element 11) and closing again,
  \<open>lastFocusedElement\<close> is still element 11.
\<close>

theorem close_keeps_focus_reference_counterexample:
  "lastFocusedElement (snd (dispatch demo_anchors (ItemClick 1) demo_page)) = Some 11
   \<and> lastFocusedElement
        (snd (closeLightbox demo_anchors (snd (dispatch demo_anchors (ItemClick 1) demo_page))))
       = Some 11"
  by code_simp

text \<open>
  Claim C4, amended. With the overlay present and an element captured,
  \<open>closeLightbox\<close> returns normally, marks the overlay closed and calls \<open>focus()\<close>
  on the captured element, with no test of its own. The focus moves to that element only
  if the browser can give it the focus; it stays where it was when the element has been
  removed from the document, and also when the element is still there but cannot take the
  focus. The captured reference is kept, not cleared.
\<close>

theorem close_restores_focus:
  assumes "lightbox A \<noteq> None" "lastFocusedElement s = Some e"
  shows "closeLightbox A s
           = (Returned,
              focus e (s\<lparr>isOpenClass := False, ariaHidden := Some ''true'',
                         bodyOverflow := []\<rparr>))
       \<and> activeElement (snd (closeLightbox A s))
           = (if can_take_focus s e then Some e else activeElement s)
       \<and> (e \<notin> set (inDocument s) \<longrightarrow>
            activeElement (snd (closeLightbox A s)) = activeElement s)
       \<and> lastFocusedElement (snd (closeLightbox A s)) = Some e"
  using assms by (auto simp add: closeLightbox_def focus_def can_take_focus_def)

theorem close_restores_focus_witness:
  "lightbox demo_anchors \<noteq> None
   \<and> lastFocusedElement (demo_page\<lparr>lastFocusedElement := Some 11, activeElement := Some 6\<rparr>)
       = Some 11
   \<and> activeElement (snd (closeLightbox demo_anchors
        (demo_page\<lparr>lastFocusedElement := Some 11, activeElement := Some 6\<rparr>))) = Some 11
   \<and> 11 \<notin> set (inDocument (demo_page\<lparr>lastFocusedElement := Some 11, activeElement := Some 6,
                   inDocument := [0, 1, 2, 3, 4, 5, 6, 7, 8, 10, 12]\<rparr>))
   \<and> activeElement (snd (closeLightbox demo_anchors
        (demo_page\<lparr>lastFocusedElement := Some 11, activeElement := Some 6,
                   inDocument := [0, 1, 2, 3, 4, 5, 6, 7, 8, 10, 12]\<rparr>))) = Some 6
   \<and> activeElement (snd (closeLightbox demo_anchors
        (demo_page\<lparr>lastFocusedElement := Some 0, activeElement := Some 6\<rparr>))) = Some 6
   \<and> lastFocusedElement (snd (closeLightbox demo_anchors
        (demo_page\<lparr>lastFocusedElement := Some 11, activeElement := Some 6\<rparr>))) = Some 11"
proof -
  let ?kept = "demo_page\<lparr>lastFocusedElement := Some 11, activeElement := Some 6\<rparr>"
  let ?gone = "demo_page\<lparr>lastFocusedElement := Some 11, activeElement := Some 6,
                   inDocument := [0, 1, 2, 3, 4, 5, 6, 7, 8, 10, 12]\<rparr>"
  let ?body = "demo_page\<lparr>lastFocusedElement := Some 0, activeElement := Some 6\<rparr>"
  have a: "lightbox demo_anchors \<noteq> None" by code_simp
  have b: "lastFocusedElement ?kept = Some 11" by simp
  have c: "lastFocusedElement ?gone = Some 11" by simp
  have d: "lastFocusedElement ?body = Some 0" by simp
  have k: "can_take_focus ?kept 11" by code_simp
  have g: "11 \<notin> set (inDocument ?gone)" by simp
  have n: "\<not> can_take_focus ?body 0" by code_simp
  note kept = close_restores_focus [OF a b]
  from kept [THEN conjunct2, THEN conjunct1] k
  have 1: "activeElement (snd (closeLightbox demo_anchors ?kept)) = Some 11"
    by simp
  from kept [THEN conjunct2, THEN conjunct2, THEN conjunct2]
  have 4: "lastFocusedElement (snd (closeLightbox demo_anchors ?kept)) = Some 11" .
  from close_restores_focus [OF a c, THEN conjunct2, THEN conjunct2, THEN conjunct1] g
  have 2: "activeElement (snd (closeLightbox demo_anchors ?gone)) = Some 6"
    by simp
  from close_restores_focus [OF a d, THEN conjunct2, THEN conjunct1] n
  have 3: "activeElement (snd (closeLightbox demo_anchors ?body)) = Some 6"
    by simp
  from a b g 1 2 3 4 show ?thesis by simp
qed

text \<open>
  Claim C6. Closing twice gives exactly the page that closing once gives. With the
  overlay, the image element and a non-empty image list, opening at \<open>k\<close> and at once
  opening at \<open>k\<close> again returns normally and gives the page of the first call with one
  more pending focus timer and nothing else changed: \<open>currentIndex\<close> is \<open>k\<close>, the
  body's \<open>overflow\<close> is the single value \<open>hidden\<close> after one call and after two, and one
  \<open>closeLightbox\<close> resets it to the empty string.
\<close>

theorem close_and_reopen_idempotent:
  "closeLightbox A (snd (closeLightbox A s)) = closeLightbox A s
   \<and> (lightbox A \<noteq> None \<and> lightboxImage A \<noteq> None \<and> images s \<noteq> [] \<longrightarrow>
        fst (openLightbox A k s) = Returned
        \<and> openLightbox A k (snd (openLightbox A k s))
            = (Returned, (snd (openLightbox A k s))
                 \<lparr>focusTimers := Suc (focusTimers (snd (openLightbox A k s)))\<rparr>)
        \<and> currentIndex (snd (openLightbox A k (snd (openLightbox A k s)))) = Num k
        \<and> bodyOverflow (snd (openLightbox A k s)) = ''hidden''
        \<and> bodyOverflow (snd (openLightbox A k (snd (openLightbox A k s)))) = ''hidden''
        \<and> bodyOverflow
            (snd (closeLightbox A (snd (openLightbox A k (snd (openLightbox A k s)))))) = [])"
proof (intro conjI impI)
  show "closeLightbox A (snd (closeLightbox A s)) = closeLightbox A s"
    by (cases "lastFocusedElement s") (auto simp add: closeLightbox_def focus_def can_take_focus_def Let_def)
next
  assume h: "lightbox A \<noteq> None \<and> lightboxImage A \<noteq> None \<and> images s \<noteq> []"
  let ?s1 = "s\<lparr>currentIndex := Num k, lastFocusedElement := activeElement s\<rparr>"
  let ?u = "snd (updateLightboxImage A ?s1)"
  let ?o1 = "?u\<lparr>isOpenClass := True, ariaHidden := Some ''false'', bodyOverflow := ''hidden'',
               focusTimers := Suc (focusTimers s)\<rparr>"
  from h have o1: "openLightbox A k s = (Returned, ?o1)"
    by (simp add: openLightbox_returned)
  have same: "?o1\<lparr>currentIndex := Num k, lastFocusedElement := activeElement ?o1\<rparr> = ?o1"
    by (rule page_index_focus_same) simp_all
  have im: "images ?o1 \<noteq> []" using h by simp
  from h have a1: "lightbox A \<noteq> None" and a2: "lightboxImage A \<noteq> None" by simp_all
  have "openLightbox A k ?o1
        = (Returned,
           (snd (updateLightboxImage A ?o1))
             \<lparr>isOpenClass := True, ariaHidden := Some ''false'', bodyOverflow := ''hidden'',
              focusTimers := Suc (focusTimers ?o1)\<rparr>)"
    using openLightbox_returned [OF a1 a2 im, of k] unfolding same .
  also have "snd (updateLightboxImage A ?o1) = ?o1"
    by (simp add: updateLightboxImage_frame updateLightboxImage_idem)
  finally have o2:
    "openLightbox A k ?o1 = (Returned, ?o1\<lparr>focusTimers := Suc (focusTimers ?o1)\<rparr>)"
    by simp
  show "fst (openLightbox A k s) = Returned" using o1 by simp
  show "openLightbox A k (snd (openLightbox A k s))
            = (Returned, (snd (openLightbox A k s))
                 \<lparr>focusTimers := Suc (focusTimers (snd (openLightbox A k s)))\<rparr>)"
    using o1 o2 by simp
  show "currentIndex (snd (openLightbox A k (snd (openLightbox A k s)))) = Num k"
    using o1 o2 by simp
  show "bodyOverflow (snd (openLightbox A k s)) = ''hidden''"
    using o1 by simp
  show "bodyOverflow (snd (openLightbox A k (snd (openLightbox A k s)))) = ''hidden''"
    using o1 o2 by simp
  from h obtain l where "lightbox A = Some l" by auto
  then show "bodyOverflow
            (snd (closeLightbox A (snd (openLightbox A k (snd (openLightbox A k s)))))) = []"
    by (simp add: closeLightbox_def focus_def Let_def split: option.splits)
qed

theorem close_and_reopen_idempotent_witness:
  "lightbox demo_anchors \<noteq> None \<and> lightboxImage demo_anchors \<noteq> None
   \<and> images demo_page \<noteq> []
   \<and> closeLightbox demo_anchors (snd (closeLightbox demo_anchors demo_page))
       = closeLightbox demo_anchors demo_page
   \<and> currentIndex (snd (openLightbox demo_anchors 2
        (snd (openLightbox demo_anchors 2 demo_page)))) = Num 2
   \<and> bodyOverflow (snd (openLightbox demo_anchors 2
        (snd (openLightbox demo_anchors 2 demo_page)))) = ''hidden''
   \<and> bodyOverflow (snd (closeLightbox demo_anchors (snd (openLightbox demo_anchors 2
        (snd (openLightbox demo_anchors 2 demo_page)))))) = []"
proof -
  have a: "lightbox demo_anchors \<noteq> None \<and> lightboxImage demo_anchors \<noteq> None
           \<and> images demo_page \<noteq> []" by code_simp
  from close_and_reopen_idempotent [of demo_anchors demo_page 2] a
  show ?thesis by blast
qed

section \<open>Input handling\<close>

text \<open>
  Claim C5, as stated, fails: only the key handler checks that the overlay is open. On
  the closed example page a click on the next control moves \<open>currentIndex\<close> from 0 to 1
  and re-renders, a click on the previous control moves it to 2, and a leftward swipe of
  100 pixels moves it to 1.
\<close>

theorem navigate_while_closed_counterexample:
  "\<not> isOpenClass demo_page \<and> currentIndex demo_page = Num 0
   \<and> currentIndex (snd (dispatch demo_anchors NextClick demo_page)) = Num 1
   \<and> currentIndex (snd (dispatch demo_anchors PrevClick demo_page)) = Num 2
   \<and> currentIndex
        (snd (dispatch demo_anchors (TouchEnd [\<lparr>screenX = 100, screenY = 0\<rparr>])
           (snd (dispatch demo_anchors (TouchStart [\<lparr>screenX = 200, screenY = 0\<rparr>])
              demo_page)))) = Num 1
   \<and> snd (dispatch demo_anchors NextClick demo_page) \<noteq> demo_page"
  by code_simp

text \<open>
  Claim C5, amended. While the overlay is closed a key press is a no-op: \<open>handleKeydown\<close>
  returns at once and the page is unchanged, whatever the key. The listeners of the
  previous and next controls and of the swipe call \<open>prevImage\<close> and \<open>nextImage\<close>
  without looking at the open state, so on those paths \<open>currentIndex\<close> moves by one
  modulo the length when the overlay is closed just as when it is open.
\<close>

theorem keydown_while_closed_noop:
  assumes "lightbox A \<noteq> None" "\<not> isOpenClass s"
  shows "handleKeydown A e s = (Returned, False, s)
       \<and> dispatch A (Keydown e) s = (Returned, s)
       \<and> (wired s \<and> nextBtn A \<noteq> None \<longrightarrow> dispatch A NextClick s = nextImage A s)
       \<and> (wired s \<and> prevBtn A \<noteq> None \<longrightarrow> dispatch A PrevClick s = prevImage A s)
       \<and> (wired s \<longrightarrow> dispatch A (TouchEnd (t # ts)) s
                         = handleSwipe A (s\<lparr>touchEndX := screenX t\<rparr>))
       \<and> (\<forall>i. currentIndex s = Num i \<and> 0 \<le> i \<and> i < int (length (images s)) \<longrightarrow>
             currentIndex (snd (nextImage A s)) = Num ((i + 1) mod int (length (images s)))
           \<and> currentIndex (snd (prevImage A s)) = Num ((i - 1) mod int (length (images s))))"
  using assms
  by (auto simp add: handleKeydown_def touchend_def nextImage_def prevImage_def js_rem_nonneg
      split: option.splits)

theorem keydown_while_closed_noop_witness:
  "lightbox demo_anchors \<noteq> None \<and> \<not> isOpenClass demo_page
   \<and> wired demo_page \<and> nextBtn demo_anchors \<noteq> None \<and> prevBtn demo_anchors \<noteq> None
   \<and> currentIndex demo_page = Num 0 \<and> (0::int) < int (length (images demo_page))
   \<and> dispatch demo_anchors (Keydown \<lparr>key = ''ArrowRight'', shiftKey = False\<rparr>) demo_page
       = (Returned, demo_page)
   \<and> dispatch demo_anchors NextClick demo_page = nextImage demo_anchors demo_page
   \<and> currentIndex (snd (nextImage demo_anchors demo_page)) = Num 1"
proof -
  have a: "lightbox demo_anchors \<noteq> None" by code_simp
  have b: "\<not> isOpenClass demo_page" by code_simp
  have c: "wired demo_page \<and> nextBtn demo_anchors \<noteq> None \<and> prevBtn demo_anchors \<noteq> None"
    by code_simp
  have d: "currentIndex demo_page = Num 0 \<and> (0::int) \<le> 0
           \<and> (0::int) < int (length (images demo_page))" by code_simp
  have l: "int (length (images demo_page)) = 3" by code_simp
  from keydown_while_closed_noop [OF a b, of "\<lparr>key = ''ArrowRight'', shiftKey = False\<rparr>"]
  have k: "dispatch demo_anchors (Keydown \<lparr>key = ''ArrowRight'', shiftKey = False\<rparr>) demo_page
       = (Returned, demo_page)"
    and n: "dispatch demo_anchors NextClick demo_page = nextImage demo_anchors demo_page"
    and i: "currentIndex (snd (nextImage demo_anchors demo_page))
            = Num ((0 + 1) mod int (length (images demo_page)))"
    using c d by blast+
  from i l have "currentIndex (snd (nextImage demo_anchors demo_page)) = Num 1" by simp
  with a b c d k n show ?thesis by simp
qed

text \<open>
  Claim C7. A swipe is a \<open>touchstart\<close> followed by a \<open>touchend\<close> on the overlay; only
  the \<open>screenX\<close> of the first changed touch of each is read. The swipe calls
  \<open>nextImage\<close> when the end lies more than 50 pixels to the left of the start, calls
  \<open>prevImage\<close> when it lies more than 50 pixels to the right, and otherwise only records
  the two positions. Changing the \<open>screenY\<close> of either touch changes nothing. In
  particular a displacement of 49 pixels (either way) or of exactly 50 does not navigate,
  51 pixels leftward is \<open>nextImage\<close> and 51 pixels rightward is \<open>prevImage\<close>.
  (Coordinates are modelled as integers.)
\<close>

theorem swipe_threshold:
  "touchend A (t1 # ts1) (snd (touchstart (t0 # ts0) s))
     = (let s' = s\<lparr>touchStartX := screenX t0, touchEndX := screenX t1\<rparr>
        in if 50 < screenX t0 - screenX t1 then nextImage A s'
           else if 50 < screenX t1 - screenX t0 then prevImage A s'
           else (Returned, s'))
   \<and> touchend A (t1\<lparr>screenY := y1\<rparr> # ts1) (snd (touchstart (t0\<lparr>screenY := y0\<rparr> # ts0) s))
     = touchend A (t1 # ts1) (snd (touchstart (t0 # ts0) s))
   \<and> touchend A [\<lparr>screenX = x - 49, screenY = y1\<rparr>]
        (snd (touchstart [\<lparr>screenX = x, screenY = y0\<rparr>] s))
     = (Returned, s\<lparr>touchStartX := x, touchEndX := x - 49\<rparr>)
   \<and> touchend A [\<lparr>screenX = x + 49, screenY = y1\<rparr>]
        (snd (touchstart [\<lparr>screenX = x, screenY = y0\<rparr>] s))
     = (Returned, s\<lparr>touchStartX := x, touchEndX := x + 49\<rparr>)
   \<and> touchend A [\<lparr>screenX = x - 50, screenY = y1\<rparr>]
        (snd (touchstart [\<lparr>screenX = x, screenY = y0\<rparr>] s))
     = (Returned, s\<lparr>touchStartX := x, touchEndX := x - 50\<rparr>)
   \<and> touchend A [\<lparr>screenX = x - 51, screenY = y1\<rparr>]
        (snd (touchstart [\<lparr>screenX = x, screenY = y0\<rparr>] s))
     = nextImage A (s\<lparr>touchStartX := x, touchEndX := x - 51\<rparr>)
   \<and> touchend A [\<lparr>screenX = x + 51, screenY = y1\<rparr>]
        (snd (touchstart [\<lparr>screenX = x, screenY = y0\<rparr>] s))
     = prevImage A (s\<lparr>touchStartX := x, touchEndX := x + 51\<rparr>)"
  by (simp add: touchend_def touchstart_def handleSwipe_def Let_def)

text \<open>On the example page: 51 pixels leftward shows the second image, 51 pixels rightward
  the third, 49 pixels leaves the first.\<close>

lemma swipe_examples:
  "currentIndex (snd (touchend demo_anchors [\<lparr>screenX = 249, screenY = 400\<rparr>]
      (snd (touchstart [\<lparr>screenX = 300, screenY = 90\<rparr>] demo_page)))) = Num 1"
  "currentIndex (snd (touchend demo_anchors [\<lparr>screenX = 351, screenY = 400\<rparr>]
      (snd (touchstart [\<lparr>screenX = 300, screenY = 90\<rparr>] demo_page)))) = Num 2"
  "currentIndex (snd (touchend demo_anchors [\<lparr>screenX = 251, screenY = 400\<rparr>]
      (snd (touchstart [\<lparr>screenX = 300, screenY = 90\<rparr>] demo_page)))) = Num 0"
  by code_simp+

lemma same_element_Some:
  "same_element a (Some b) = (a = Some b)"
  by (cases a) auto

text \<open>
  Claim C8, as stated, fails: the trap works on the elements that its selector matches,
  not on the controls that can take the focus. On \<open>link_page\<close> the controls that can
  take the focus are 6, 7, 8 and the link 9, the focus is on the last of them, and Tab is
  not trapped: the default action stays and the focus is not moved to the first. On
  \<open>disabled_page\<close> the controls that can take the focus are 6, 7 and 8, the focus is on
  the first, and Shift+Tab cancels the default action but calls \<open>focus()\<close> on the
  disabled button 9, so the focus does not reach the last control 8.
\<close>

theorem focus_trap_counterexample:
  "isOpenClass link_page
   \<and> filter (can_take_focus link_page) (map ctl_el (overlayControls link_page)) = [6, 7, 8, 9]
   \<and> map ctl_el (filter focusable (overlayControls link_page)) = [6, 7, 8]
   \<and> activeElement link_page = Some 9
   \<and> handleKeydown demo_anchors \<lparr>key = ''Tab'', shiftKey = False\<rparr> link_page
       = (Returned, False, link_page)
   \<and> isOpenClass disabled_page
   \<and> filter (can_take_focus disabled_page) (map ctl_el (overlayControls disabled_page))
       = [6, 7, 8]
   \<and> map ctl_el (filter focusable (overlayControls disabled_page)) = [6, 7, 8, 9]
   \<and> activeElement disabled_page = Some 6
   \<and> handleKeydown demo_anchors \<lparr>key = ''Tab'', shiftKey = True\<rparr> disabled_page
       = (Returned, True, disabled_page)"
  by code_simp

text \<open>
  Claim C8, amended. The focus trap takes from the page, as it is when the key is pressed,
  the descendants of the overlay that match the selector
  \<open>button:not([disabled]), [tabindex]:not([tabindex="-1"])\<close>. When that list is not
  empty: Tab with the focus on its last element cancels the default action and calls
  \<open>focus()\<close> on its first; Shift+Tab with the focus on its first cancels the default
  action and calls \<open>focus()\<close> on its last; the focus then moves there if that element can
  take the focus and stays otherwise. Every other Tab press leaves the page unchanged and
  the default action in place. While the overlay is open, a Tab key press is handled by
  exactly this function.
\<close>

theorem focus_trap_wraps:
  assumes "lightbox A \<noteq> None"
    and "map ctl_el (filter focusable (overlayControls s)) = f # fs"
  shows "trapFocus A e s
         = (if shiftKey e then
              (if activeElement s = Some f
               then (Returned, True,
                     if can_take_focus s (last (f # fs))
                     then s\<lparr>activeElement := Some (last (f # fs))\<rparr> else s)
               else (Returned, False, s))
            else
              (if activeElement s = Some (last (f # fs))
               then (Returned, True,
                     if can_take_focus s f then s\<lparr>activeElement := Some f\<rparr> else s)
               else (Returned, False, s)))
       \<and> (isOpenClass s \<and> key e = ''Tab'' \<longrightarrow> handleKeydown A e s = trapFocus A e s)"
proof -
  from assms(1) obtain l where l: "lightbox A = Some l" by auto
  have trap: "trapFocus A e s
         = (if shiftKey e then
              (if activeElement s = Some f
               then (Returned, True,
                     if can_take_focus s (last (f # fs))
                     then s\<lparr>activeElement := Some (last (f # fs))\<rparr> else s)
               else (Returned, False, s))
            else
              (if activeElement s = Some (last (f # fs))
               then (Returned, True,
                     if can_take_focus s f then s\<lparr>activeElement := Some f\<rparr> else s)
               else (Returned, False, s)))"
    unfolding trapFocus_def l assms(2)
    by (simp add: Let_def same_element_Some focus_def del: last.simps)
  have "isOpenClass s \<and> key e = ''Tab'' \<longrightarrow> handleKeydown A e s = trapFocus A e s"
    by (simp add: handleKeydown_def l)
  with trap show ?thesis by blast
qed

theorem focus_trap_wraps_witness:
  "lightbox demo_anchors \<noteq> None
   \<and> map ctl_el (filter focusable (overlayControls demo_page)) = [6, 7, 8]
   \<and> can_take_focus demo_page 6 \<and> can_take_focus demo_page 8
   \<and> trapFocus demo_anchors \<lparr>key = ''Tab'', shiftKey = False\<rparr>
        (demo_page\<lparr>isOpenClass := True, activeElement := Some 8\<rparr>)
       = (Returned, True, demo_page\<lparr>isOpenClass := True, activeElement := Some 6\<rparr>)
   \<and> trapFocus demo_anchors \<lparr>key = ''Tab'', shiftKey = True\<rparr>
        (demo_page\<lparr>isOpenClass := True, activeElement := Some 6\<rparr>)
       = (Returned, True, demo_page\<lparr>isOpenClass := True, activeElement := Some 8\<rparr>)
   \<and> trapFocus demo_anchors \<lparr>key = ''Tab'', shiftKey = False\<rparr>
        (demo_page\<lparr>isOpenClass := True, activeElement := Some 7\<rparr>)
       = (Returned, False, demo_page\<lparr>isOpenClass := True, activeElement := Some 7\<rparr>)
   \<and> handleKeydown demo_anchors \<lparr>key = ''Tab'', shiftKey = False\<rparr>
        (demo_page\<lparr>isOpenClass := True, activeElement := Some 8\<rparr>)
       = (Returned, True, demo_page\<lparr>isOpenClass := True, activeElement := Some 6\<rparr>)
   \<and> map ctl_el (filter focusable (overlayControls disabled_page)) = [6, 7, 8, 9]
   \<and> \<not> can_take_focus disabled_page 9
   \<and> trapFocus demo_anchors \<lparr>key = ''Tab'', shiftKey = True\<rparr> disabled_page
       = (Returned, True, disabled_page)"
proof -
  let ?on8 = "demo_page\<lparr>isOpenClass := True, activeElement := Some 8\<rparr>"
  let ?on6 = "demo_page\<lparr>isOpenClass := True, activeElement := Some 6\<rparr>"
  let ?on7 = "demo_page\<lparr>isOpenClass := True, activeElement := Some 7\<rparr>"
  have a: "lightbox demo_anchors \<noteq> None" by code_simp
  have b: "map ctl_el (filter focusable (overlayControls demo_page)) = [6, 7, 8]"
    by code_simp
  have b8: "map ctl_el (filter focusable (overlayControls ?on8)) = [6, 7, 8]"
    using b by simp
  have b6: "map ctl_el (filter focusable (overlayControls ?on6)) = [6, 7, 8]"
    using b by simp
  have b7: "map ctl_el (filter focusable (overlayControls ?on7)) = [6, 7, 8]"
    using b by simp
  have bd: "map ctl_el (filter focusable (overlayControls disabled_page)) = [6, 7, 8, 9]"
    by code_simp
  have c: "can_take_focus demo_page 6 \<and> can_take_focus demo_page 8" by code_simp
  have c8: "can_take_focus ?on8 6" by code_simp
  have c6: "can_take_focus ?on6 8" by code_simp
  have nd: "\<not> can_take_focus disabled_page 9" by code_simp
  have ad: "activeElement disabled_page = Some 6" by code_simp
  from focus_trap_wraps [OF a b8, of "\<lparr>key = ''Tab'', shiftKey = False\<rparr>"] c8
  have 1: "trapFocus demo_anchors \<lparr>key = ''Tab'', shiftKey = False\<rparr> ?on8
           = (Returned, True, ?on6)"
    and 4: "handleKeydown demo_anchors \<lparr>key = ''Tab'', shiftKey = False\<rparr> ?on8
           = (Returned, True, ?on6)"
    by simp_all
  from focus_trap_wraps [OF a b6, of "\<lparr>key = ''Tab'', shiftKey = True\<rparr>"] c6
  have 2: "trapFocus demo_anchors \<lparr>key = ''Tab'', shiftKey = True\<rparr> ?on6
           = (Returned, True, ?on8)"
    by simp
  from focus_trap_wraps [OF a b7, of "\<lparr>key = ''Tab'', shiftKey = False\<rparr>"]
  have 3: "trapFocus demo_anchors \<lparr>key = ''Tab'', shiftKey = False\<rparr> ?on7
           = (Returned, False, ?on7)"
    by simp
  from focus_trap_wraps [OF a bd, of "\<lparr>key = ''Tab'', shiftKey = True\<rparr>"] nd ad
  have 5: "trapFocus demo_anchors \<lparr>key = ''Tab'', shiftKey = True\<rparr> disabled_page
           = (Returned, True, disabled_page)"
    by simp
  from a b c bd nd 1 2 3 4 5 show ?thesis by simp
qed

section \<open>Missing elements\<close>

text \<open>
  Where the script guards an absent element: without the overlay or without gallery
  items \<open>init\<close> changes nothing, and a page on which nothing was registered ignores
  every event.
\<close>

lemma init_disabled:
  "lightbox A = None \<or> galleryItems A = [] \<Longrightarrow> init A s = (Returned, s)"
  by (auto simp add: init_def)

lemma unwired_dispatch_noop:
  "\<not> wired s \<Longrightarrow> focusTimers s = 0 \<Longrightarrow> \<not> imageOnload s \<Longrightarrow>
   dispatch A ev s = (Returned, s)"
  by (cases ev) simp_all

text \<open>
  Claim C9 says that with any expected element absent at initialisation, the image
  element among them, every operation of the feature is a no-op that never throws. The
  script guards the overlay, the gallery collection, the caption, the counters and the
  three controls, but not the image element. On the three-photograph page without it,
  \<open>init\<close> still registers every listener; a click on the second gallery item then
  assigns \<open>currentIndex\<close> and \<open>lastFocusedElement\<close> and throws in
  \<open>updateLightboxImage\<close> before the overlay is opened, and a click on the next control
  or a swipe changes \<open>currentIndex\<close> and throws as well.
\<close>

theorem missing_image_slot_throws:
  "init no_image_anchors fresh_page = (Returned, demo_page)
   \<and> wired demo_page \<and> \<not> isOpenClass demo_page
   \<and> dispatch no_image_anchors (ItemClick 1) demo_page
       = (Threw TypeError, demo_page\<lparr>currentIndex := Num 1, lastFocusedElement := Some 11\<rparr>)
   \<and> dispatch no_image_anchors NextClick demo_page
       = (Threw TypeError, demo_page\<lparr>currentIndex := Num 1\<rparr>)
   \<and> dispatch no_image_anchors (TouchEnd [\<lparr>screenX = 0, screenY = 0\<rparr>])
        (demo_page\<lparr>touchStartX := 80\<rparr>)
       = (Threw TypeError,
          demo_page\<lparr>touchStartX := 80, touchEndX := 0, currentIndex := Num 1\<rparr>)"
  by code_simp

end
